theory Spec2Isabelle
  imports Complex_Main
begin

section \<open>The NGP particle shape (include/picongpu/particles/shapes/NGP.hpp)\<close>

subsection \<open>The scalar type \<open>float_X\<close>\<close>

text \<open>
  Modelled from the spec: the type \<open>float_X\<close> and the literal suffix \<open>_X\<close> are declared in
  \<^verbatim>\<open>picongpu/simulation_defines.hpp\<close>, which is not part of the sources at hand. The spec
  calls the coordinate and the weight "real"; the header name and the suffix say that it is
  the simulation's binary floating-point type. A value is therefore a finite real number, one
  of the two infinities, or a NaN. Every finite floating-point number is a real number, so a
  statement about all \<open>Finite x\<close> covers all finite values of either precision. The two signed
  zeroes compare equal and are both \<open>Finite 0\<close>.
\<close>

datatype float_X = Finite real | PlusInf | MinusInf | NaN

text \<open>
  The ordered comparisons \<^verbatim>\<open><=\<close> and \<^verbatim>\<open><\<close> of C++ on a floating-point type: exact on
  finite values, false as soon as one operand is a NaN.
\<close>

fun le_X :: "float_X \<Rightarrow> float_X \<Rightarrow> bool" where
  "le_X NaN _ = False"
| "le_X _ NaN = False"
| "le_X MinusInf _ = True"
| "le_X _ PlusInf = True"
| "le_X PlusInf _ = False"
| "le_X _ MinusInf = False"
| "le_X (Finite a) (Finite b) = (a \<le> b)"

fun lt_X :: "float_X \<Rightarrow> float_X \<Rightarrow> bool" where
  "lt_X NaN _ = False"
| "lt_X _ NaN = False"
| "lt_X PlusInf _ = False"
| "lt_X _ MinusInf = False"
| "lt_X MinusInf _ = True"
| "lt_X _ PlusInf = True"
| "lt_X (Finite a) (Finite b) = (a < b)"

text \<open>Unary minus, as in \<^verbatim>\<open>-0.5_X\<close>: exact on every value.\<close>

fun uminus_X :: "float_X \<Rightarrow> float_X" where
  "uminus_X (Finite a) = Finite (- a)"
| "uminus_X PlusInf = MinusInf"
| "uminus_X MinusInf = PlusInf"
| "uminus_X NaN = NaN"

text \<open>The conversion \<^verbatim>\<open>float_X( b )\<close> of a \<^verbatim>\<open>bool\<close>: \<^verbatim>\<open>true\<close> is 1, \<^verbatim>\<open>false\<close> is 0.\<close>

definition float_X_of_bool :: "bool \<Rightarrow> float_X" where
  "float_X_of_bool b = (if b then Finite 1 else Finite 0)"

subsection \<open>The support constant\<close>

text \<open>
  \<^verbatim>\<open>shared_NGP::NGP::support\<close> is a \<^verbatim>\<open>static constexpr int\<close>. The three structs \<^verbatim>\<open>NGP\<close>,
  \<^verbatim>\<open>NGP::ChargeAssignment\<close> and \<^verbatim>\<open>NGP::ChargeAssignmentOnSupport\<close> derive from
  \<^verbatim>\<open>shared_NGP::NGP\<close> and declare no member of that name, so the name \<open>support\<close> looked up
  in any of them is the member of the base.
\<close>

definition shared_NGP_support :: int where
  "shared_NGP_support = 1"

definition NGP_support :: int where
  "NGP_support = shared_NGP_support"

definition ChargeAssignment_support :: int where
  "ChargeAssignment_support = shared_NGP_support"

definition ChargeAssignmentOnSupport_support :: int where
  "ChargeAssignmentOnSupport_support = shared_NGP_support"

subsection \<open>The two evaluators\<close>

text \<open>\<^verbatim>\<open>NGP::ChargeAssignment::operator()\<close>, lines 52 to 64.\<close>

definition ChargeAssignment :: "float_X \<Rightarrow> float_X" where
  "ChargeAssignment x =
     (let below_half = (le_X (uminus_X (Finite (1/2))) x \<and> lt_X x (Finite (1/2)))
      in float_X_of_bool below_half)"

text \<open>\<^verbatim>\<open>NGP::ChargeAssignmentOnSupport::operator()\<close>, lines 73 to 79: the parameter is unnamed.\<close>

definition ChargeAssignmentOnSupport :: "float_X \<Rightarrow> float_X" where
  "ChargeAssignmentOnSupport _ = Finite 1"

subsection \<open>Weights as real numbers\<close>


section \<open>Properties\<close>

lemma ChargeAssignment_Finite:
  "ChargeAssignment (Finite x) = (if - (1/2) \<le> x \<and> x < 1/2 then Finite 1 else Finite 0)"
  by (simp add: ChargeAssignment_def float_X_of_bool_def)

text \<open>
  C1. For every real \<open>x\<close> the general evaluator returns exactly 1 when \<open>-0.5 \<le> x < 0.5\<close>
  and exactly 0 otherwise. The half-open boundary is exact: the value at \<open>-0.5\<close> is 1 and
  the value at \<open>0.5\<close> is 0.
\<close>

theorem ChargeAssignment_half_open:
  "ChargeAssignment (Finite x) = (if - (1/2) \<le> x \<and> x < 1/2 then Finite 1 else Finite 0)
   \<and> ChargeAssignment (Finite (- (1/2))) = Finite 1
   \<and> ChargeAssignment (Finite (1/2)) = Finite 0"
  by (simp add: ChargeAssignment_Finite)

theorem ChargeAssignment_half_open_witness:
  "ChargeAssignment (Finite (1/4)) = Finite 1 \<and> ChargeAssignment (Finite 2) = Finite 0
   \<and> ChargeAssignment (Finite (- (1/2))) = Finite 1
   \<and> ChargeAssignment (Finite (1/2)) = Finite 0"
  using ChargeAssignment_half_open [of "1/4"] ChargeAssignment_half_open [of 2]
  by simp

text \<open>
  C4. The support-restricted evaluator returns exactly 1 for every input, finite or not:
  it is a constant function.
\<close>

theorem ChargeAssignmentOnSupport_constant:
  "ChargeAssignmentOnSupport x = Finite 1"
  by (simp add: ChargeAssignmentOnSupport_def)

subsection \<open>Partition of unity\<close>




subsection \<open>The two evaluators on the support\<close>

text \<open>
  C3. For every real \<open>x\<close> in \<open>[-support/2, support/2)\<close>, which is \<open>[-0.5, 0.5)\<close> for NGP, the
  general evaluator and the support-restricted evaluator return the same value.
\<close>

theorem ChargeAssignment_agrees_on_support:
  assumes "- (real_of_int ChargeAssignmentOnSupport_support / 2) \<le> x"
    and "x < real_of_int ChargeAssignmentOnSupport_support / 2"
  shows "ChargeAssignment (Finite x) = ChargeAssignmentOnSupport (Finite x)"
  using assms
  by (simp add: ChargeAssignment_Finite ChargeAssignmentOnSupport_def
      ChargeAssignmentOnSupport_support_def shared_NGP_support_def)

theorem ChargeAssignment_agrees_on_support_witness:
  "- (real_of_int ChargeAssignmentOnSupport_support / 2) \<le> 1/4
   \<and> 1/4 < real_of_int ChargeAssignmentOnSupport_support / 2
   \<and> ChargeAssignment (Finite (1/4)) = ChargeAssignmentOnSupport (Finite (1/4))"
proof -
  have lo: "- (real_of_int ChargeAssignmentOnSupport_support / 2) \<le> 1/4"
    by (simp add: ChargeAssignmentOnSupport_support_def shared_NGP_support_def)
  have hi: "1/4 < real_of_int ChargeAssignmentOnSupport_support / 2"
    by (simp add: ChargeAssignmentOnSupport_support_def shared_NGP_support_def)
  show ?thesis
    using lo hi ChargeAssignment_agrees_on_support [OF lo hi] by simp
qed

subsection \<open>Range of the weights\<close>

text \<open>
  C5. For every real input \<open>x\<close>, the weight returned by the general evaluator and the weight
  returned by the support-restricted evaluator lie in \<open>[0, 1]\<close>, in the order of \<open>float_X\<close>
  itself.
\<close>

theorem weights_in_unit_interval:
  "le_X (Finite 0) (ChargeAssignment (Finite x))
   \<and> le_X (ChargeAssignment (Finite x)) (Finite 1)
   \<and> le_X (Finite 0) (ChargeAssignmentOnSupport (Finite x))
   \<and> le_X (ChargeAssignmentOnSupport (Finite x)) (Finite 1)"
  by (simp add: ChargeAssignment_Finite ChargeAssignmentOnSupport_def)

text \<open>
  C9. The general evaluator is two-valued: for every real input \<open>x\<close> its result is exactly 0
  or exactly 1.
\<close>

theorem ChargeAssignment_two_valued:
  "ChargeAssignment (Finite x) = Finite 0 \<or> ChargeAssignment (Finite x) = Finite 1"
  by (simp add: ChargeAssignment_Finite)

text \<open>
  C8. On a NaN the general evaluator returns 0: both comparisons are false, the NaN is not
  propagated.
\<close>

theorem ChargeAssignment_NaN:
  "ChargeAssignment NaN = Finite 0"
  by (simp add: ChargeAssignment_def float_X_of_bool_def)

subsection \<open>The support constant\<close>

text \<open>
  C6. The support of the NGP shape is the integer constant 1, hence an integer that is at
  least 1.
\<close>

theorem support_is_one:
  "shared_NGP_support = 1 \<and> 1 \<le> shared_NGP_support"
  by (simp add: shared_NGP_support_def)

text \<open>
  C10. The support seen through \<^verbatim>\<open>NGP\<close>, \<^verbatim>\<open>NGP::ChargeAssignment\<close> and
  \<^verbatim>\<open>NGP::ChargeAssignmentOnSupport\<close> is the same constant, and it is 1.
\<close>

theorem support_same_in_family:
  "NGP_support = ChargeAssignment_support
   \<and> ChargeAssignment_support = ChargeAssignmentOnSupport_support
   \<and> NGP_support = 1 \<and> ChargeAssignment_support = 1
   \<and> ChargeAssignmentOnSupport_support = 1"
  by (simp add: NGP_support_def ChargeAssignment_support_def
      ChargeAssignmentOnSupport_support_def shared_NGP_support_def)

end
